theory Spec2Isabelle
  imports Main "HOL-Library.Word"
begin

section \<open>Machine types of the fragment\<close>

text \<open>
  The two headers use three kinds of scalar: \<^verbatim>\<open>int\<close>, \<^verbatim>\<open>float\<close> and object pointers.
  An \<^verbatim>\<open>int\<close> is a 32-bit word read as two's complement (its order is \<open><s\<close>,
  its value \<open>sint\<close>). A \<^verbatim>\<open>float\<close> is held as its IEEE-754 binary32 bit pattern, which
  is all a structure that only stores it needs: bit 31 is the sign. A pointer is the
  address it holds, tagged with the type it points to; the pointed-to classes are
  only forward-declared in the headers, so they are opaque types here.
\<close>

type_synonym c_int = "32 word"
type_synonym c_float = "32 word"
type_synonym addr = "64 word"

datatype 'a ptr = Ptr addr

typedecl Plugin
typedecl Session
typedecl MenuDescriptor
typedecl QMenu
typedecl QTimer
typedecl QSignalMapper
typedecl QMainWindow


section \<open>\<^verbatim>\<open>core/math.h\<close>\<close>

text \<open>
  \<^verbatim>\<open>typedef struct Rect { int x; int y; int width; int height; } Rect;\<close>
\<close>

record Rect =
  x :: c_int
  y :: c_int
  width :: c_int
  height :: c_int

text \<open>
  \<^verbatim>\<open>typedef struct FloatRect { float x; float y; float width; float height; } FloatRect;\<close>
\<close>

record FloatRect =
  x :: c_float
  y :: c_float
  width :: c_float
  height :: c_float

text \<open>
  \<^verbatim>\<open>#define int_min(a, b) ((a < b) ? b : a)\<close>

  The macro applied to two \<^verbatim>\<open>int\<close> values: the comparison is the signed one. The
  header has no statement that can fail (no call, no arithmetic, no dereference),
  so neither the macro nor the structures carry an error result.
\<close>

definition int_min :: "c_int \<Rightarrow> c_int \<Rightarrow> c_int" where
  "int_min a b = (if a <s b then b else a)"


section \<open>\<^verbatim>\<open>ui/MainWindow.h\<close>\<close>

text \<open>
  \<^verbatim>\<open>struct PluginInfo { Plugin* plugin; int menuItem; };\<close>
\<close>

record PluginInfo =
  plugin :: "Plugin ptr"
  menuItem :: c_int

text \<open>
  \<^verbatim>\<open>class MainWindow : public QMainWindow\<close>: the inherited sub-object, whose class is
  the toolkit's, followed by the seven data members in the order of declaration. The
  member functions are only declared in the header, so nothing here allocates the
  array behind \<open>m_pluginInfoArray\<close>, relates its length to \<open>m_pluginCount\<close>, or
  creates and releases the menu, the timer and the signal mapper: the record holds
  the addresses and the count as the class declares them, independent of each other.
\<close>

record MainWindow =
  base_QMainWindow :: QMainWindow
  m_pluginMenu :: "QMenu ptr"
  m_timer :: "QTimer ptr"
  m_signalMapper :: "QSignalMapper ptr"
  m_pluginInfoArray :: "PluginInfo ptr"
  m_remoteSession :: "Session ptr"
  m_activeSession :: "Session ptr"
  m_pluginCount :: c_int


section \<open>The macro \<open>int_min\<close>\<close>

lemma int_min_sint: "sint (int_min a b) = max (sint a) (sint b)"
  by (simp add: int_min_def word_sless_alt max_def)

lemma sint_eq_imp_eq: "sint a = sint b \<Longrightarrow> a = (b :: c_int)"
  by (rule signed_word_eqI)

text \<open>
  C1. The claim: whenever \<open>a < b\<close>, \<open>int_min(a, b)\<close> is the smaller value \<open>a\<close>. The
  macro does the opposite. At \<open>a = 1\<close>, \<open>b = 2\<close> the test \<open>a < b\<close> succeeds, so the
  conditional takes its first branch, which is \<open>b\<close>: the result is 2, not 1.
\<close>

theorem int_min_1_2_is_2:
  "(1 :: c_int) <s 2 \<and> int_min 1 2 = 2 \<and> int_min 1 2 \<noteq> 1"
  by (simp add: int_min_def word_sless_alt)

text \<open>
  C2. For all \<^verbatim>\<open>int\<close> values \<open>a\<close> and \<open>b\<close>, \<open>int_min(a, b)\<close> is the larger of the two
  as signed integers, \<open>max a b\<close>: it is \<open>b\<close> when \<open>a < b\<close> and \<open>a\<close> otherwise.
\<close>

theorem int_min_is_max:
  "sint (int_min a b) = max (sint a) (sint b) \<and>
   (sint a < sint b \<longrightarrow> int_min a b = b) \<and>
   (\<not> sint a < sint b \<longrightarrow> int_min a b = a)"
  by (simp add: int_min_def word_sless_alt max_def)

theorem int_min_is_max_witness:
  "sint (- 5 :: c_int) < sint (3 :: c_int) \<and> int_min (- 5) 3 = 3 \<and>
   \<not> sint (8 :: c_int) < sint (3 :: c_int) \<and> int_min 8 3 = 8 \<and>
   sint (int_min (- 5) 3) = max (sint (- 5 :: c_int)) (sint (3 :: c_int))"
  using int_min_is_max [of "- 5" 3] int_min_is_max [of 8 3]
  by simp

text \<open>
  C8. For all \<^verbatim>\<open>int\<close> values \<open>a\<close> and \<open>b\<close>, the result of \<open>int_min(a, b)\<close> is one of
  its two arguments.
\<close>

theorem int_min_is_argument: "int_min a b = a \<or> int_min a b = b"
  by (simp add: int_min_def)

text \<open>
  C9. \<open>int_min\<close> is commutative on \<^verbatim>\<open>int\<close> values: \<open>int_min(a, b) = int_min(b, a)\<close>.
  When neither \<open>a < b\<close> nor \<open>b < a\<close> the two calls return different arguments, which
  are then the same value.
\<close>

theorem int_min_commute: "int_min a b = int_min b a"
proof (rule sint_eq_imp_eq)
  show "sint (int_min a b) = sint (int_min b a)"
    by (simp only: int_min_sint max.commute)
qed

text \<open>
  C10. \<open>int_min\<close> is idempotent: \<open>int_min(a, a) = a\<close> for every \<^verbatim>\<open>int\<close> value \<open>a\<close>; on
  equal arguments the result is therefore also their minimum.
\<close>

theorem int_min_idem: "int_min a a = a \<and> sint (int_min a a) = min (sint a) (sint a)"
  by (simp add: int_min_def)


section \<open>The rectangle structures\<close>

text \<open>
  C3. A \<open>Rect\<close> or a \<open>FloatRect\<close> built from four values gives back, field by field,
  exactly the values it was built from.
\<close>

theorem rect_field_roundtrip:
  "Rect.x \<lparr>Rect.x = a, Rect.y = b, Rect.width = c, Rect.height = d\<rparr> = a \<and>
   Rect.y \<lparr>Rect.x = a, Rect.y = b, Rect.width = c, Rect.height = d\<rparr> = b \<and>
   Rect.width \<lparr>Rect.x = a, Rect.y = b, Rect.width = c, Rect.height = d\<rparr> = c \<and>
   Rect.height \<lparr>Rect.x = a, Rect.y = b, Rect.width = c, Rect.height = d\<rparr> = d \<and>
   FloatRect.x \<lparr>FloatRect.x = e, FloatRect.y = f, FloatRect.width = g, FloatRect.height = h\<rparr> = e \<and>
   FloatRect.y \<lparr>FloatRect.x = e, FloatRect.y = f, FloatRect.width = g, FloatRect.height = h\<rparr> = f \<and>
   FloatRect.width \<lparr>FloatRect.x = e, FloatRect.y = f, FloatRect.width = g, FloatRect.height = h\<rparr> = g \<and>
   FloatRect.height \<lparr>FloatRect.x = e, FloatRect.y = f, FloatRect.width = g, FloatRect.height = h\<rparr> = h"
  by simp

text \<open>
  C4. Neither structure constrains its fields. Every choice of four field values,
  negative extents included, is the content of some \<open>Rect\<close> (and of some
  \<open>FloatRect\<close>), and two rectangles are equal only when all four fields agree, so no
  choice is refused and none is replaced by another. The last four conjuncts read
  back negative extents: \<open>-3\<close> and \<open>-7\<close> as \<^verbatim>\<open>int\<close>, and \<open>-1.0\<close> and \<open>-2.0\<close> as
  \<^verbatim>\<open>float\<close> (bit patterns \<open>0xBF800000\<close> and \<open>0xC0000000\<close>, sign bit set).
\<close>

theorem rect_no_invariant:
  "(\<exists>r :: Rect. Rect.x r = a \<and> Rect.y r = b \<and> Rect.width r = c \<and> Rect.height r = d) \<and>
   (\<exists>r :: FloatRect. FloatRect.x r = e \<and> FloatRect.y r = f \<and>
      FloatRect.width r = g \<and> FloatRect.height r = h) \<and>
   ((r1 :: Rect) = r2) =
     (Rect.x r1 = Rect.x r2 \<and> Rect.y r1 = Rect.y r2 \<and>
      Rect.width r1 = Rect.width r2 \<and> Rect.height r1 = Rect.height r2) \<and>
   ((q1 :: FloatRect) = q2) =
     (FloatRect.x q1 = FloatRect.x q2 \<and> FloatRect.y q1 = FloatRect.y q2 \<and>
      FloatRect.width q1 = FloatRect.width q2 \<and> FloatRect.height q1 = FloatRect.height q2) \<and>
   sint (Rect.width \<lparr>Rect.x = 0, Rect.y = 0, Rect.width = - 3, Rect.height = - 7\<rparr>) = - 3 \<and>
   sint (Rect.height \<lparr>Rect.x = 0, Rect.y = 0, Rect.width = - 3, Rect.height = - 7\<rparr>) = - 7 \<and>
   bit (FloatRect.width \<lparr>FloatRect.x = 0, FloatRect.y = 0,
      FloatRect.width = 0xBF800000, FloatRect.height = 0xC0000000\<rparr>) 31 \<and>
   bit (FloatRect.height \<lparr>FloatRect.x = 0, FloatRect.y = 0,
      FloatRect.width = 0xBF800000, FloatRect.height = 0xC0000000\<rparr>) 31"
proof -
  have "\<exists>r :: Rect. Rect.x r = a \<and> Rect.y r = b \<and> Rect.width r = c \<and> Rect.height r = d"
    by (rule exI [of _ "\<lparr>Rect.x = a, Rect.y = b, Rect.width = c, Rect.height = d\<rparr>"]) simp
  moreover have "\<exists>r :: FloatRect. FloatRect.x r = e \<and> FloatRect.y r = f \<and>
      FloatRect.width r = g \<and> FloatRect.height r = h"
    by (rule exI [of _ "\<lparr>FloatRect.x = e, FloatRect.y = f,
        FloatRect.width = g, FloatRect.height = h\<rparr>"]) simp
  moreover have "(r1 = r2) =
     (Rect.x r1 = Rect.x r2 \<and> Rect.y r1 = Rect.y r2 \<and>
      Rect.width r1 = Rect.width r2 \<and> Rect.height r1 = Rect.height r2)"
    by auto
  moreover have "(q1 = q2) =
     (FloatRect.x q1 = FloatRect.x q2 \<and> FloatRect.y q1 = FloatRect.y q2 \<and>
      FloatRect.width q1 = FloatRect.width q2 \<and> FloatRect.height q1 = FloatRect.height q2)"
    by auto
  ultimately show ?thesis
    by simp
qed


section \<open>The window's data\<close>

text \<open>
  C6. A \<open>PluginInfo\<close> is a pointer to a \<open>Plugin\<close> and an \<^verbatim>\<open>int\<close> \<open>menuItem\<close>, and
  nothing else: reading the two fields is a one-to-one correspondence between the
  \<open>PluginInfo\<close> values and the pairs of a \<open>Plugin\<close> pointer and an \<^verbatim>\<open>int\<close>.
\<close>

theorem PluginInfo_two_components:
  "bij (\<lambda>r :: PluginInfo. (plugin r, menuItem r))"
proof (rule bijI')
  fix r r' :: PluginInfo
  show "((plugin r, menuItem r) = (plugin r', menuItem r')) = (r = r')"
    by auto
next
  fix p :: "Plugin ptr \<times> c_int"
  show "\<exists>r :: PluginInfo. p = (plugin r, menuItem r)"
    by (rule exI [of _ "\<lparr>plugin = fst p, menuItem = snd p\<rparr>"]) simp
qed

end
